theory Spec2Isabelle
  imports Complex_Main "HOL-Library.Log_Nat"
begin

section \<open>JSON values and their text form\<close>

text \<open>
  The session's user object and every list item the panels receive are values that
  \<^verbatim>\<open>res.json()\<close> returned. Strings are lists of code units; the numbers that occur
  inside these objects are integers (identifiers, counters), for which the text form of a
  Number is its decimal notation.
\<close>

datatype json =
    JNull
  | JBool bool
  | JNum int
  | JStr string
  | JArr "json list"
  | JObj "(string \<times> json) list"

definition digit_char :: "nat \<Rightarrow> char" where
  "digit_char d = char_of (48 + d)"

fun digits :: "nat \<Rightarrow> string" where
  "digits n = (if n < 10 then [digit_char n] else digits (n div 10) @ [digit_char (n mod 10)])"

declare digits.simps [simp del]

definition hex_char :: "nat \<Rightarrow> char" where
  "hex_char d = (if d < 10 then char_of (48 + d) else char_of (87 + d))"

text \<open>\<^verbatim>\<open>QuoteJSONString\<close>: the two-character escapes, \<^verbatim>\<open>\u00xx\<close> for the other control
  characters, every other code unit as it is.\<close>

definition escape_char :: "char \<Rightarrow> string" where
  "escape_char c =
     (if c = CHR 0x08 then [CHR 0x5C, CHR ''b'']
      else if c = CHR 0x09 then [CHR 0x5C, CHR ''t'']
      else if c = CHR 0x0A then [CHR 0x5C, CHR ''n'']
      else if c = CHR 0x0C then [CHR 0x5C, CHR ''f'']
      else if c = CHR 0x0D then [CHR 0x5C, CHR ''r'']
      else if c = CHR 0x22 then [CHR 0x5C, CHR 0x22]
      else if c = CHR 0x5C then [CHR 0x5C, CHR 0x5C]
      else if (of_char c :: nat) < 32
        then [CHR 0x5C, CHR ''u'', CHR ''0'', CHR ''0'',
              hex_char (of_char c div 16), hex_char (of_char c mod 16)]
      else [c])"

definition quote :: "string \<Rightarrow> string" where
  "quote s = [CHR 0x22] @ concat (map escape_char s) @ [CHR 0x22]"

fun join_comma :: "string list \<Rightarrow> string" where
  "join_comma [] = []"
| "join_comma [x] = x"
| "join_comma (x # y # ys) = x @ [CHR '',''] @ join_comma (y # ys)"

fun JSON_stringify :: "json \<Rightarrow> string" where
  "JSON_stringify JNull = ''null''"
| "JSON_stringify (JBool b) = (if b then ''true'' else ''false'')"
| "JSON_stringify (JNum n) = (if n < 0 then CHR ''-'' # digits (nat (- n)) else digits (nat n))"
| "JSON_stringify (JStr s) = quote s"
| "JSON_stringify (JArr xs) = [CHR ''[''] @ join_comma (map JSON_stringify xs) @ [CHR '']'']"
| "JSON_stringify (JObj ms) =
     [CHR ''{''] @
     join_comma (map (\<lambda>kv. quote (fst kv) @ [CHR '':''] @ JSON_stringify (snd kv)) ms) @
     [CHR ''}'']"

text \<open>\<^verbatim>\<open>JSON.parse\<close>: a recursive-descent reader of the JSON grammar. \<open>None\<close> is the
  \<^verbatim>\<open>SyntaxError\<close> the platform throws (a number with a fraction or an exponent, and a
  \<^verbatim>\<open>\u\<close> escape beyond one code unit of this model, lie outside the values above and
  are refused as well).\<close>

definition is_ws :: "char \<Rightarrow> bool" where
  "is_ws c \<longleftrightarrow> c = CHR 0x20 \<or> c = CHR 0x09 \<or> c = CHR 0x0A \<or> c = CHR 0x0D"

definition skip_ws :: "string \<Rightarrow> string" where
  "skip_ws s = dropWhile is_ws s"

definition is_digit :: "char \<Rightarrow> bool" where
  "is_digit c \<longleftrightarrow> 48 \<le> (of_char c :: nat) \<and> (of_char c :: nat) \<le> 57"

definition digit_val :: "char \<Rightarrow> nat" where
  "digit_val c = of_char c - 48"

definition nat_of_digits :: "string \<Rightarrow> nat" where
  "nat_of_digits ds = foldl (\<lambda>a c. 10 * a + digit_val c) 0 ds"

definition hex_val :: "char \<Rightarrow> nat option" where
  "hex_val c =
     (let n = (of_char c :: nat) in
      if 48 \<le> n \<and> n \<le> 57 then Some (n - 48)
      else if 97 \<le> n \<and> n \<le> 102 then Some (n - 87)
      else if 65 \<le> n \<and> n \<le> 70 then Some (n - 55)
      else None)"

definition unescape :: "char \<Rightarrow> char option" where
  "unescape e =
     (if e = CHR 0x22 then Some (CHR 0x22)
      else if e = CHR 0x5C then Some (CHR 0x5C)
      else if e = CHR ''/'' then Some (CHR ''/'')
      else if e = CHR ''b'' then Some (CHR 0x08)
      else if e = CHR ''f'' then Some (CHR 0x0C)
      else if e = CHR ''n'' then Some (CHR 0x0A)
      else if e = CHR ''r'' then Some (CHR 0x0D)
      else if e = CHR ''t'' then Some (CHR 0x09)
      else None)"

definition hex4 :: "char \<Rightarrow> char \<Rightarrow> char \<Rightarrow> char \<Rightarrow> char option" where
  "hex4 a b c d =
     (case (hex_val a, hex_val b, hex_val c, hex_val d) of
        (Some x, Some y, Some z, Some w) \<Rightarrow>
          (if x = 0 \<and> y = 0 then Some (char_of (16 * z + w)) else None)
      | _ \<Rightarrow> None)"

text \<open>The characters of a string literal after its opening quote, up to the closing one.\<close>

fun parse_chars :: "string \<Rightarrow> (string \<times> string) option" where
  "parse_chars [] = None"
| "parse_chars (c # cs) =
     (if c = CHR 0x22 then Some ([], cs)
      else if c = CHR 0x5C then
        (case cs of
           [] \<Rightarrow> None
         | e # cs' \<Rightarrow>
             (if e = CHR ''u'' then
                (case cs' of
                   h1 # h2 # h3 # h4 # r \<Rightarrow>
                     (case hex4 h1 h2 h3 h4 of
                        None \<Rightarrow> None
                      | Some ch \<Rightarrow> map_option (\<lambda>(s, r'). (ch # s, r')) (parse_chars r))
                 | _ \<Rightarrow> None)
              else
                (case unescape e of
                   None \<Rightarrow> None
                 | Some ch \<Rightarrow> map_option (\<lambda>(s, r'). (ch # s, r')) (parse_chars cs'))))
      else if (of_char c :: nat) < 32 then None
      else map_option (\<lambda>(s, r'). (c # s, r')) (parse_chars cs))"

text \<open>A number token: \<^verbatim>\<open>0\<close> or a digit sequence without a leading zero. A fraction or an
  exponent after it is refused.\<close>

definition parse_nat :: "string \<Rightarrow> (nat \<times> string) option" where
  "parse_nat s =
     (case s of
        [] \<Rightarrow> None
      | c # r \<Rightarrow>
          if \<not> is_digit c then None
          else
            (let (n, r') = (if c = CHR ''0'' then (0, r)
                            else (nat_of_digits (takeWhile is_digit s), dropWhile is_digit s))
             in case r' of
                  [] \<Rightarrow> Some (n, r')
                | d # _ \<Rightarrow> if d = CHR ''.'' \<or> d = CHR ''e'' \<or> d = CHR ''E'' then None
                           else Some (n, r')))"

text \<open>Property definition as \<^verbatim>\<open>JSON.parse\<close> performs it: a repeated key keeps its first
  position and takes the later value; keys that are array indices come first, in
  ascending numeric order.\<close>

definition put_prop :: "string \<Rightarrow> json \<Rightarrow> (string \<times> json) list \<Rightarrow> (string \<times> json) list" where
  "put_prop k v ms =
     (if k \<in> fst ` set ms then map (\<lambda>kv. if fst kv = k then (k, v) else kv) ms
      else ms @ [(k, v)])"

definition is_index :: "string \<Rightarrow> bool" where
  "is_index k \<longleftrightarrow>
     k \<noteq> [] \<and> list_all is_digit k \<and> (k = ''0'' \<or> hd k \<noteq> CHR ''0'') \<and>
     nat_of_digits k < 4294967295"

definition order_props :: "(string \<times> json) list \<Rightarrow> (string \<times> json) list" where
  "order_props ms =
     sort_key (\<lambda>kv. nat_of_digits (fst kv)) (filter (\<lambda>kv. is_index (fst kv)) ms) @
     filter (\<lambda>kv. \<not> is_index (fst kv)) ms"

definition make_object :: "(string \<times> json) list \<Rightarrow> json" where
  "make_object raw = JObj (order_props (foldl (\<lambda>acc kv. put_prop (fst kv) (snd kv) acc) [] raw))"

text \<open>The reader proper. Its first argument bounds the nesting and the number of
  elements read; \<open>JSON_parse\<close> starts it with more than the length of the text.\<close>

fun parse_value :: "nat \<Rightarrow> string \<Rightarrow> (json \<times> string) option"
and parse_elems :: "nat \<Rightarrow> string \<Rightarrow> (json list \<times> string) option"
and parse_members :: "nat \<Rightarrow> string \<Rightarrow> ((string \<times> json) list \<times> string) option"
where
  "parse_value 0 s = None"
| "parse_value (Suc n) s =
     (case skip_ws s of
        [] \<Rightarrow> None
      | c # r \<Rightarrow>
          if c = CHR ''n'' then (if take 3 r = ''ull'' then Some (JNull, drop 3 r) else None)
          else if c = CHR ''t'' then
            (if take 3 r = ''rue'' then Some (JBool True, drop 3 r) else None)
          else if c = CHR ''f'' then
            (if take 4 r = ''alse'' then Some (JBool False, drop 4 r) else None)
          else if c = CHR 0x22 then map_option (\<lambda>(x, r'). (JStr x, r')) (parse_chars r)
          else if c = CHR ''['' then
            (case skip_ws r of
               [] \<Rightarrow> None
             | d # r' \<Rightarrow>
                 if d = CHR '']'' then Some (JArr [], r')
                 else map_option (\<lambda>(xs, r''). (JArr xs, r'')) (parse_elems n r))
          else if c = CHR ''{'' then
            (case skip_ws r of
               [] \<Rightarrow> None
             | d # r' \<Rightarrow>
                 if d = CHR ''}'' then Some (JObj [], r')
                 else map_option (\<lambda>(ms, r''). (make_object ms, r'')) (parse_members n r))
          else if c = CHR ''-'' then
            map_option (\<lambda>(m, r'). (JNum (- int m), r')) (parse_nat r)
          else map_option (\<lambda>(m, r'). (JNum (int m), r')) (parse_nat (c # r)))"
| "parse_elems 0 s = None"
| "parse_elems (Suc n) s =
     (case parse_value n s of
        None \<Rightarrow> None
      | Some (v, r) \<Rightarrow>
          (case skip_ws r of
             [] \<Rightarrow> None
           | c # r' \<Rightarrow>
               if c = CHR '','' then map_option (\<lambda>(vs, r''). (v # vs, r'')) (parse_elems n r')
               else if c = CHR '']'' then Some ([v], r')
               else None))"
| "parse_members 0 s = None"
| "parse_members (Suc n) s =
     (case skip_ws s of
        [] \<Rightarrow> None
      | q # r \<Rightarrow>
          if q \<noteq> CHR 0x22 then None
          else
            (case parse_chars r of
               None \<Rightarrow> None
             | Some (k, r1) \<Rightarrow>
                 (case skip_ws r1 of
                    [] \<Rightarrow> None
                  | c1 # r2 \<Rightarrow>
                      if c1 \<noteq> CHR '':'' then None
                      else
                        (case parse_value n r2 of
                           None \<Rightarrow> None
                         | Some (v, r3) \<Rightarrow>
                             (case skip_ws r3 of
                                [] \<Rightarrow> None
                              | c3 # r4 \<Rightarrow>
                                  if c3 = CHR '','' then
                                    map_option (\<lambda>(ms, r5). ((k, v) # ms, r5)) (parse_members n r4)
                                  else if c3 = CHR ''}'' then Some ([(k, v)], r4)
                                  else None)))))"

definition JSON_parse :: "string \<Rightarrow> json option" where
  "JSON_parse s =
     (case parse_value (Suc (length s)) s of
        None \<Rightarrow> None
      | Some (v, r) \<Rightarrow> if skip_ws r = [] then Some v else None)"


text \<open>What may come after a value inside a text written by \<open>JSON_stringify\<close>: nothing, or
  the comma or bracket of the enclosing array or object.\<close>

definition follows :: "string \<Rightarrow> bool" where
  "follows r \<longleftrightarrow> (case r of [] \<Rightarrow> True | c # cs \<Rightarrow> c = CHR '','' \<or> c = CHR '']'' \<or> c = CHR ''}'')"


section \<open>Numbers\<close>

text \<open>
  A JavaScript Number is an IEEE 754 binary64 value. \<open>Fin q\<close> is the finite double whose
  exact value is the rational \<open>q\<close> (the two zeros are not told apart: nothing in the
  program divides by a zero or inspects its sign). Every arithmetic operation computes
  the exact result and rounds it to the nearest double, ties to the even significand;
  \<open>fl\<close> is that rounding, with gradual underflow and overflow to the infinities.
\<close>

datatype jsnum = Fin rat | PInf | NInf | NaN

definition pow2 :: "int \<Rightarrow> rat" where
  "pow2 e = (if 0 \<le> e then 2 ^ nat e else 1 / 2 ^ nat (- e))"

text \<open>For \<open>a > 0\<close>, the exponent \<open>e\<close> with \<open>2^e \<le> a < 2^(e+1)\<close>.\<close>

definition expo :: "rat \<Rightarrow> int" where
  "expo a =
     (let e0 = bitlen (fst (quotient_of a)) - bitlen (snd (quotient_of a))
      in if pow2 e0 \<le> a then e0 else e0 - 1)"

definition rne :: "rat \<Rightarrow> int" where
  "rne m =
     (let f = \<lfloor>m\<rfloor>; r = m - of_int f
      in if r < 1 / 2 then f else if 1 / 2 < r then f + 1 else if even f then f else f + 1)"

definition fl :: "rat \<Rightarrow> jsnum" where
  "fl q =
     (if q = 0 then Fin 0
      else
        (let a = \<bar>q\<bar>;
             e = max (expo a) (- 1022);
             u = pow2 (e - 52);
             r = of_int (rne (a / u)) * u
         in if pow2 1024 \<le> r then (if 0 < q then PInf else NInf)
            else Fin (if 0 < q then r else - r)))"

fun num_add :: "jsnum \<Rightarrow> jsnum \<Rightarrow> jsnum" where
  "num_add NaN y = NaN"
| "num_add x NaN = NaN"
| "num_add PInf NInf = NaN"
| "num_add NInf PInf = NaN"
| "num_add PInf y = PInf"
| "num_add x PInf = PInf"
| "num_add NInf y = NInf"
| "num_add x NInf = NInf"
| "num_add (Fin a) (Fin b) = fl (a + b)"

fun num_mul :: "jsnum \<Rightarrow> jsnum \<Rightarrow> jsnum" where
  "num_mul NaN y = NaN"
| "num_mul x NaN = NaN"
| "num_mul (Fin a) (Fin b) = fl (a * b)"
| "num_mul (Fin a) PInf = (if a = 0 then NaN else if 0 < a then PInf else NInf)"
| "num_mul (Fin a) NInf = (if a = 0 then NaN else if 0 < a then NInf else PInf)"
| "num_mul PInf (Fin b) = (if b = 0 then NaN else if 0 < b then PInf else NInf)"
| "num_mul NInf (Fin b) = (if b = 0 then NaN else if 0 < b then NInf else PInf)"
| "num_mul PInf PInf = PInf"
| "num_mul PInf NInf = NInf"
| "num_mul NInf PInf = NInf"
| "num_mul NInf NInf = PInf"

text \<open>The comparison \<^verbatim>\<open>x <= y\<close> of the language: false whenever a NaN is involved.\<close>

fun num_le :: "jsnum \<Rightarrow> jsnum \<Rightarrow> bool" where
  "num_le NaN y = False"
| "num_le x NaN = False"
| "num_le NInf y = True"
| "num_le x PInf = True"
| "num_le PInf y = False"
| "num_le x NInf = False"
| "num_le (Fin a) (Fin b) = (a \<le> b)"

definition Math_max :: "jsnum \<Rightarrow> jsnum \<Rightarrow> jsnum" where
  "Math_max x y = (if x = NaN \<or> y = NaN then NaN else if num_le x y then y else x)"

text \<open>
  \<^verbatim>\<open>+(x).toFixed(2)\<close>. \<^verbatim>\<open>toFixed(2)\<close> picks the integer \<open>n\<close> with \<open>n / 100\<close> nearest to the
  exact value of \<open>\<bar>x\<bar>\<close> (the larger \<open>n\<close> of two), writes it with two decimals and the sign
  of \<open>x\<close>; at \<open>10^21\<close> and above, and for NaN and the infinities, it writes the Number as
  \<^verbatim>\<open>String\<close> does. The unary plus reads the text back as the nearest double.
\<close>

definition cents :: "rat \<Rightarrow> int" where
  "cents x = \<lfloor>\<bar>x\<bar> * 100 + 1 / 2\<rfloor>"

definition toFixed2 :: "jsnum \<Rightarrow> jsnum" where
  "toFixed2 x =
     (case x of
        Fin q \<Rightarrow>
          if 10 ^ 21 \<le> \<bar>q\<bar> then Fin q
          else fl ((if q < 0 then - 1 else 1) * of_int (cents q) / 100)
      | _ \<Rightarrow> x)"

text \<open>The literal \<^verbatim>\<open>0.07\<close>.\<close>

definition tax_rate :: jsnum where
  "tax_rate = fl (7 / 100)"

section \<open>The browser: persisted storage, requests, responses\<close>

text \<open>
  \<^verbatim>\<open>localStorage\<close> holds three keys. \<open>token\<close> and \<open>user\<close> are kept as the stored
  text. The \<open>cart\<close> entry is kept as the array that \<^verbatim>\<open>JSON.parse\<close> returns for the
  stored text (its lines carry prices, which are not integers); \<open>None\<close> is an absent key.
\<close>

record cart_item =
  product_id :: string
  name :: string
  price :: jsnum
  qty :: jsnum
  image :: "string option"

record storage =
  ls_token :: "string option"
  ls_user :: "string option"
  ls_cart :: "cart_item list option"

datatype http_verb = GET | POST | PATCH | DELETE

text \<open>The product form of the admin panel, as typed into its inputs.\<close>

record pform =
  f_name :: string
  f_price :: string
  f_category :: string
  f_stock :: string
  f_description :: string
  f_images :: string

text \<open>The JSON bodies the client sends, by the object literal that is serialised (the
  product body is computed from the form).\<close>

datatype payload =
    Credentials string string
  | Registration string string string
  | OrderBody "(string \<times> jsnum) list" string
  | PaymentBody jsnum string "string option"
  | ServiceBody string string
  | PlanBody string
  | CameraBody string string string
  | AlertBody string string string
  | ProductBody pform
  | StatusBody string

text \<open>A request: method, path below the API base, the bearer token of the
  \<^verbatim>\<open>Authorization\<close> header when the call passes one, and the body.\<close>

record request =
  rmethod :: http_verb
  rpath :: string
  rbearer :: "string option"
  rbody :: "payload option"

text \<open>What \<^verbatim>\<open>await fetch(...)\<close> gives: a rejected promise (no response at all), or a
  response with its \<^verbatim>\<open>ok\<close> flag and what \<^verbatim>\<open>res.json()\<close> would return (\<open>None\<close>: the body
  is not JSON and \<^verbatim>\<open>res.json()\<close> rejects).\<close>

datatype 'a response = Rejected | Response bool "'a option"

datatype error = Error string | TypeError | SyntaxError

text \<open>Everything outside the components: the storage, the requests issued so far (oldest
  first) and the messages shown by \<^verbatim>\<open>alert\<close>.\<close>

record world =
  storage :: storage
  sent :: "request list"
  alerts :: "string list"

definition fetch :: "request \<Rightarrow> world \<Rightarrow> world" where
  "fetch r w = w\<lparr>sent := sent w @ [r]\<rparr>"

definition alert :: "string \<Rightarrow> world \<Rightarrow> world" where
  "alert m w = w\<lparr>alerts := alerts w @ [m]\<rparr>"

section \<open>useAuth\<close>

text \<open>
  The hook is the same in both source files. \<open>session_data\<close> is the body of a successful
  login or registration response: the token, a string, and the user.
\<close>

record session_data =
  d_token :: string
  d_user :: json

record auth =
  token :: string
  user :: json

text \<open>The two \<^verbatim>\<open>useState\<close> initialisers; \<^verbatim>\<open>JSON.parse\<close> may throw.\<close>

definition useAuth :: "storage \<Rightarrow> error + auth" where
  "useAuth ls =
     (let t = (case ls_token ls of None \<Rightarrow> [] | Some x \<Rightarrow> x) in
      case ls_user ls of
        None \<Rightarrow> Inr \<lparr>token = t, user = JNull\<rparr>
      | Some d \<Rightarrow>
          if d = [] then Inr \<lparr>token = t, user = JNull\<rparr>
          else
            (case JSON_parse d of
               None \<Rightarrow> Inl SyntaxError
             | Some u \<Rightarrow> Inr \<lparr>token = t, user = u\<rparr>))"

definition login_request :: "string \<Rightarrow> string \<Rightarrow> request" where
  "login_request email password =
     \<lparr>rmethod = POST, rpath = ''/auth/login'', rbearer = None,
      rbody = Some (Credentials email password)\<rparr>"

definition store_session :: "session_data \<Rightarrow> storage \<Rightarrow> storage" where
  "store_session d ls = ls\<lparr>ls_token := Some (d_token d), ls_user := Some (JSON_stringify (d_user d))\<rparr>"

definition login ::
  "string \<Rightarrow> string \<Rightarrow> session_data response \<Rightarrow> world \<times> auth \<Rightarrow> (error + unit) \<times> world \<times> auth" where
  "login email password res wa =
     (let w1 = fetch (login_request email password) (fst wa); a = snd wa in
      case res of
        Rejected \<Rightarrow> (Inl TypeError, w1, a)
      | Response ok body \<Rightarrow>
          if \<not> ok then (Inl (Error ''Invalid credentials''), w1, a)
          else
            (case body of
               None \<Rightarrow> (Inl SyntaxError, w1, a)
             | Some d \<Rightarrow>
                 (Inr (), w1\<lparr>storage := store_session d (storage w1)\<rparr>,
                  \<lparr>token = d_token d, user = d_user d\<rparr>)))"

definition register_request :: "string \<Rightarrow> string \<Rightarrow> string \<Rightarrow> request" where
  "register_request nm email password =
     \<lparr>rmethod = POST, rpath = ''/auth/register'', rbearer = None,
      rbody = Some (Registration nm email password)\<rparr>"

definition register ::
  "string \<Rightarrow> string \<Rightarrow> string \<Rightarrow> session_data response \<Rightarrow> world \<times> auth \<Rightarrow>
   (error + unit) \<times> world \<times> auth" where
  "register nm email password res wa =
     (let w1 = fetch (register_request nm email password) (fst wa); a = snd wa in
      case res of
        Rejected \<Rightarrow> (Inl TypeError, w1, a)
      | Response ok body \<Rightarrow>
          if \<not> ok then (Inl (Error ''Registration failed''), w1, a)
          else
            (case body of
               None \<Rightarrow> (Inl SyntaxError, w1, a)
             | Some d \<Rightarrow>
                 (Inr (), w1\<lparr>storage := store_session d (storage w1)\<rparr>,
                  \<lparr>token = d_token d, user = d_user d\<rparr>)))"

definition logout :: "world \<times> auth \<Rightarrow> world \<times> auth" where
  "logout wa =
     ((fst wa)\<lparr>storage := (storage (fst wa))\<lparr>ls_token := None, ls_user := None\<rparr>\<rparr>,
      \<lparr>token = [], user = JNull\<rparr>)"

text \<open>The root component: which screen \<^verbatim>\<open>App\<close> returns.\<close>

datatype screen = AuthScreen | Dashboard string json

definition App :: "auth \<Rightarrow> screen" where
  "App a = (if token a = [] then AuthScreen else Dashboard (token a) (user a))"

section \<open>Shop and Cart (src/App.jsx)\<close>

record product =
  p_id :: string
  p_name :: string
  p_description :: string
  p_price :: jsnum
  p_images :: "string list option"

text \<open>\<^verbatim>\<open>Array.prototype.findIndex\<close>; \<open>None\<close> is the result \<^verbatim>\<open>-1\<close>.\<close>

fun findIndex :: "('a \<Rightarrow> bool) \<Rightarrow> 'a list \<Rightarrow> nat option" where
  "findIndex P [] = None"
| "findIndex P (x # xs) = (if P x then Some 0 else map_option Suc (findIndex P xs))"

text \<open>\<^verbatim>\<open>JSON.parse(localStorage.getItem('cart') || '[]')\<close>.\<close>

definition stored_cart :: "storage \<Rightarrow> cart_item list" where
  "stored_cart ls = (case ls_cart ls of None \<Rightarrow> [] | Some xs \<Rightarrow> xs)"

definition setCart :: "cart_item list \<Rightarrow> world \<Rightarrow> world" where
  "setCart xs w = w\<lparr>storage := (storage w)\<lparr>ls_cart := Some xs\<rparr>\<rparr>"

text \<open>\<^verbatim>\<open>p.images?.[0]\<close>.\<close>

definition first_image :: "product \<Rightarrow> string option" where
  "first_image p = (case p_images p of None \<Rightarrow> None | Some [] \<Rightarrow> None | Some (x # xs) \<Rightarrow> Some x)"

definition addToCart :: "product \<Rightarrow> world \<Rightarrow> world" where
  "addToCart p w =
     (let existing = stored_cart (storage w);
          idx = findIndex (\<lambda>i. product_id i = p_id p) existing;
          existing' =
            (case idx of
               Some k \<Rightarrow> existing[k := (existing ! k)\<lparr>qty := num_add (qty (existing ! k)) (Fin 1)\<rparr>]
             | None \<Rightarrow>
                 existing @
                 [\<lparr>product_id = p_id p, name = p_name p, price = p_price p, qty = Fin 1,
                   image = first_image p\<rparr>])
      in alert ''Added to cart'' (setCart existing' w))"

text \<open>The state of the \<open>Cart\<close> component; \<open>items\<close> is read from storage once, at mount.\<close>

record cart =
  items :: "cart_item list"
  address :: string

definition Cart_init :: "storage \<Rightarrow> cart" where
  "Cart_init ls = \<lparr>items = stored_cart ls, address = []\<rparr>"

definition updateQty :: "string \<Rightarrow> jsnum \<Rightarrow> world \<times> cart \<Rightarrow> world \<times> cart" where
  "updateQty pid delta wc =
     (let next = map (\<lambda>i. if product_id i = pid
                            then i\<lparr>qty := Math_max (Fin 1) (num_add (qty i) delta)\<rparr> else i)
                     (items (snd wc))
      in (setCart next (fst wc), (snd wc)\<lparr>items := next\<rparr>))"

definition removeItem :: "string \<Rightarrow> world \<times> cart \<Rightarrow> world \<times> cart" where
  "removeItem pid wc =
     (let next = filter (\<lambda>i. product_id i \<noteq> pid) (items (snd wc))
      in (setCart next (fst wc), (snd wc)\<lparr>items := next\<rparr>))"

definition subtotal :: "cart \<Rightarrow> jsnum" where
  "subtotal c = foldl (\<lambda>s i. num_add s (num_mul (price i) (qty i))) (Fin 0) (items c)"

definition tax :: "cart \<Rightarrow> jsnum" where
  "tax c = toFixed2 (num_mul (subtotal c) tax_rate)"

definition total :: "cart \<Rightarrow> jsnum" where
  "total c = toFixed2 (num_add (subtotal c) (tax c))"

text \<open>The invariant of the data model: every line has \<^verbatim>\<open>qty >= 1\<close>.\<close>

definition qty_ok :: "cart_item list \<Rightarrow> bool" where
  "qty_ok xs = list_all (\<lambda>i. num_le (Fin 1) (qty i)) xs"

text \<open>
  The pricing rule in the specification's words, over exact arithmetic: the subtotal is the
  sum over the lines of price times quantity. \<open>exact x\<close> says that \<open>x\<close> is itself a double,
  so that an operation whose exact result is \<open>x\<close> returns it unrounded.
\<close>

definition rat_of :: "jsnum \<Rightarrow> rat" where
  "rat_of x = (case x of Fin q \<Rightarrow> q | _ \<Rightarrow> 0)"

definition finite_num :: "jsnum \<Rightarrow> bool" where
  "finite_num x = (case x of Fin q \<Rightarrow> True | _ \<Rightarrow> False)"

definition exact :: "rat \<Rightarrow> bool" where
  "exact x \<longleftrightarrow> fl x = Fin x"

definition spec_subtotal :: "cart_item list \<Rightarrow> rat" where
  "spec_subtotal xs = sum_list (map (\<lambda>i. rat_of (price i) * rat_of (qty i)) xs)"

text \<open>
  Tax and total in the specification's words, over exact arithmetic: the product with 0.07
  and the sum, rounded to two decimals (a half rounds away from zero, as \<^verbatim>\<open>toFixed\<close> does).
\<close>

definition spec_round2 :: "rat \<Rightarrow> rat" where
  "spec_round2 x = (if x < 0 then - 1 else 1) * of_int (cents x) / 100"

definition spec_tax :: "cart_item list \<Rightarrow> rat" where
  "spec_tax xs = spec_round2 (spec_subtotal xs * (7 / 100))"

definition spec_total :: "cart_item list \<Rightarrow> rat" where
  "spec_total xs = spec_round2 (spec_subtotal xs + spec_tax xs)"

text \<open>The lines are finite numbers and the running sum stays exact.\<close>

fun exact_lines :: "rat \<Rightarrow> cart_item list \<Rightarrow> bool" where
  "exact_lines s [] = True"
| "exact_lines s (i # xs) =
     (finite_num (price i) \<and> finite_num (qty i) \<and>
      exact (rat_of (price i) * rat_of (qty i)) \<and>
      exact (s + rat_of (price i) * rat_of (qty i)) \<and>
      exact_lines (s + rat_of (price i) * rat_of (qty i)) xs)"

record order_data =
  o_id :: string
  o_total :: jsnum

definition order_request :: "string \<Rightarrow> cart \<Rightarrow> request" where
  "order_request tok c =
     \<lparr>rmethod = POST, rpath = ''/orders'', rbearer = Some tok,
      rbody = Some (OrderBody (map (\<lambda>i. (product_id i, qty i)) (items c)) (address c))\<rparr>"

definition payment_request :: "string \<Rightarrow> order_data \<Rightarrow> request" where
  "payment_request tok order =
     \<lparr>rmethod = POST, rpath = ''/payments/checkout'', rbearer = Some tok,
      rbody = Some (PaymentBody (o_total order) (''Order '' @ o_id order) (Some (o_id order)))\<rparr>"

text \<open>
  \<open>placeOrder\<close>, given what the two awaited requests produce. The second response is only
  consulted when the second request is issued. The result is \<open>Inl\<close> when the returned
  promise rejects (a failed \<^verbatim>\<open>fetch\<close> or \<^verbatim>\<open>res.json()\<close>), \<open>Inr ()\<close> when it resolves.
\<close>

definition placeOrder ::
  "string \<Rightarrow> order_data response \<Rightarrow> json response \<Rightarrow> world \<times> cart \<Rightarrow>
   (error + unit) \<times> world \<times> cart" where
  "placeOrder tok res pay wc =
     (let w = fst wc; c = snd wc in
      if items c = [] then (Inr (), w, c)
      else
        (let w1 = fetch (order_request tok c) w in
         case res of
           Rejected \<Rightarrow> (Inl TypeError, w1, c)
         | Response ok body \<Rightarrow>
             if \<not> ok then (Inr (), alert ''Order failed'' w1, c)
             else
               (case body of
                  None \<Rightarrow> (Inl SyntaxError, w1, c)
                | Some order \<Rightarrow>
                    (let w2 = fetch (payment_request tok order) w1 in
                     case pay of
                       Rejected \<Rightarrow> (Inl TypeError, w2, c)
                     | Response pok pbody \<Rightarrow>
                         if \<not> pok then (Inr (), alert ''Payment failed'' w2, c)
                         else
                           (Inr (),
                            alert ''Order placed and paid successfully!''
                              (w2\<lparr>storage := (storage w2)\<lparr>ls_cart := None\<rparr>\<rparr>),
                            c\<lparr>items := []\<rparr>)))))"

section \<open>What a component renders\<close>

text \<open>The handlers a button can be wired to, with the arguments of the call.\<close>

datatype action =
    SetTab string
  | Load
  | AddToCart product
  | UpdateQty string jsnum
  | RemoveItem string
  | PlaceOrder
  | Book
  | ChangePlan string
  | CreateProduct
  | DeleteProduct "json option"
  | UpdateOrderStatus "json option" string
  | SendAlert
  | CreateService
  | Pay
  | Add

text \<open>The rendered tree, flattened: static text, an input with its placeholder, an amount
  shown with two decimals, a button (label, handler, disabled), and the card of one list
  item with the buttons inside it. Styling, and the texts a card derives from its item,
  are not represented.\<close>

datatype node =
    Text string
  | Field string
  | Amount string jsnum
  | Button string action bool
  | Card json "node list"
  | ProductCard product "node list"
  | LineCard cart_item "node list"

text \<open>Property access on a value received as JSON; \<open>None\<close> is \<^verbatim>\<open>undefined\<close>.\<close>

definition get_prop :: "string \<Rightarrow> json \<Rightarrow> json option" where
  "get_prop k v = (case v of JObj ms \<Rightarrow> map_of ms k | _ \<Rightarrow> None)"

text \<open>\<^verbatim>\<open>user?.role === 'admin'\<close>.\<close>

definition isAdmin :: "json \<Rightarrow> bool" where
  "isAdmin usr \<longleftrightarrow> get_prop ''role'' usr = Some (JStr ''admin'')"



definition rejected :: "'a response \<Rightarrow> bool" where
  "rejected r = (case r of Rejected \<Rightarrow> True | Response ok b \<Rightarrow> False)"

text \<open>\<^verbatim>\<open>await res.json()\<close> on a response that arrived.\<close>

definition body_of :: "'a response \<Rightarrow> 'a option" where
  "body_of r = (case r of Rejected \<Rightarrow> None | Response ok b \<Rightarrow> b)"

definition get_request :: "string \<Rightarrow> string option \<Rightarrow> request" where
  "get_request path tok = \<lparr>rmethod = GET, rpath = path, rbearer = tok, rbody = None\<rparr>"

subsection \<open>Shop and Cart views\<close>

definition Shop_grid :: "product list \<Rightarrow> bool \<Rightarrow> node list" where
  "Shop_grid products loading =
     map (\<lambda>p. ProductCard p [Button ''Add to cart'' (AddToCart p) False]) products @
     (if products = [] \<and> \<not> loading then [Text ''No products found.''] else [])"

definition Shop_view :: "product list \<Rightarrow> bool \<Rightarrow> node list" where
  "Shop_view products loading =
     [Field ''Search products'', Field ''All categories'', Button ''Filter'' Load False] @
     (if loading then [Text ''Loading...''] else []) @
     Shop_grid products loading"

definition Cart_lines :: "cart_item list \<Rightarrow> node list" where
  "Cart_lines xs =
     map (\<lambda>i. LineCard i
            [Button ''-'' (UpdateQty (product_id i) (Fin (- 1))) False,
             Button ''+'' (UpdateQty (product_id i) (Fin 1)) False,
             Button ''Remove'' (RemoveItem (product_id i)) False]) xs @
     (if xs = [] then [Text ''Your cart is empty.''] else [])"

definition Cart_view :: "cart \<Rightarrow> node list" where
  "Cart_view c =
     Cart_lines (items c) @
     [Text ''Order summary'',
      Amount ''Subtotal'' (subtotal c), Amount ''Tax'' (tax c), Amount ''Total'' (total c),
      Field ''Shipping/installation address'',
      Button ''Place order'' PlaceOrder (items c = [])]"

section \<open>Services and Account (src/App.jsx)\<close>




definition Services_list :: "json list \<Rightarrow> node list" where
  "Services_list services =
     map (\<lambda>s. Card s []) services @
     (if services = [] then [Text ''No service bookings yet.''] else [])"

definition Services_view :: "json list \<Rightarrow> node list" where
  "Services_view services = Button ''Book installation'' Book False # Services_list services"




section \<open>AdminPanel (src/App.jsx)\<close>

record admin =
  a_tab :: string
  a_users :: "json list"
  a_products :: "json list"
  a_orders :: "json list"
  a_svcs :: "json list"
  a_pForm :: pform

definition empty_form :: pform where
  "empty_form =
     \<lparr>f_name = [], f_price = [], f_category = ''camera'', f_stock = ''0'',
      f_description = [], f_images = []\<rparr>"

text \<open>The four responses that one run of \<open>load\<close> awaits together.\<close>

record admin_responses =
  r_users :: "json list response"
  r_products :: "json list response"
  r_orders :: "json list response"
  r_svcs :: "json list response"

definition AdminPanel_requests :: "string \<Rightarrow> request list" where
  "AdminPanel_requests tok =
     [get_request ''/admin/users'' (Some tok), get_request ''/products'' None,
      get_request ''/admin/orders'' (Some tok), get_request ''/admin/services'' (Some tok)]"

text \<open>
  \<open>load\<close>: nothing for a user who is not an admin. Otherwise the four requests are issued
  at once; \<^verbatim>\<open>Promise.all\<close> rejects when one of them does. Then the bodies are read and
  stored one after the other, so a body that cannot be read stops the run after the lists
  before it were stored.
\<close>

definition AdminPanel_load ::
  "string \<Rightarrow> json \<Rightarrow> admin_responses \<Rightarrow> world \<times> admin \<Rightarrow> (error + unit) \<times> world \<times> admin" where
  "AdminPanel_load tok usr rs ws =
     (let w = fst ws; st = snd ws in
      if \<not> isAdmin usr then (Inr (), w, st)
      else
        (let w1 = w\<lparr>sent := sent w @ AdminPanel_requests tok\<rparr> in
         if rejected (r_users rs) \<or> rejected (r_products rs) \<or> rejected (r_orders rs) \<or>
            rejected (r_svcs rs)
         then (Inl TypeError, w1, st)
         else
           (case body_of (r_users rs) of
              None \<Rightarrow> (Inl SyntaxError, w1, st)
            | Some us \<Rightarrow>
                (case body_of (r_products rs) of
                   None \<Rightarrow> (Inl SyntaxError, w1, st\<lparr>a_users := us\<rparr>)
                 | Some ps \<Rightarrow>
                     (case body_of (r_orders rs) of
                        None \<Rightarrow> (Inl SyntaxError, w1, st\<lparr>a_users := us, a_products := ps\<rparr>)
                      | Some os \<Rightarrow>
                          (case body_of (r_svcs rs) of
                             None \<Rightarrow>
                               (Inl SyntaxError, w1,
                                st\<lparr>a_users := us, a_products := ps, a_orders := os\<rparr>)
                           | Some ss \<Rightarrow>
                               (Inr (), w1,
                                st\<lparr>a_users := us, a_products := ps, a_orders := os,
                                   a_svcs := ss\<rparr>)))))))"







definition AdminProducts_list :: "json list \<Rightarrow> node list" where
  "AdminProducts_list products =
     map (\<lambda>p. Card p [Button ''Delete'' (DeleteProduct (get_prop ''_id'' p)) False]) products @
     (if products = [] then [Text ''No products yet.''] else [])"

definition AdminOrders_list :: "json list \<Rightarrow> node list" where
  "AdminOrders_list orders =
     map (\<lambda>ord. Card ord
            (map (\<lambda>s. Button s (UpdateOrderStatus (get_prop ''_id'' ord) s) False)
               [''paid'', ''processing'', ''shipped'', ''completed'', ''cancelled''])) orders @
     (if orders = [] then [Text ''No orders yet.''] else [])"

definition AdminCustomers_list :: "json list \<Rightarrow> node list" where
  "AdminCustomers_list users =
     map (\<lambda>u. Card u []) users @ (if users = [] then [Text ''No customers yet.''] else [])"

definition AdminServices_list :: "json list \<Rightarrow> node list" where
  "AdminServices_list svcs =
     map (\<lambda>s. Card s []) svcs @ (if svcs = [] then [Text ''No service requests.''] else [])"

definition AdminPanel_view :: "json \<Rightarrow> admin \<Rightarrow> node list" where
  "AdminPanel_view usr st =
     (if \<not> isAdmin usr then [Text ''Admin dashboard is available for admin accounts.'']
      else
        [Button ''PRODUCTS'' (SetTab ''products'') False,
         Button ''ORDERS'' (SetTab ''orders'') False,
         Button ''CUSTOMERS'' (SetTab ''customers'') False,
         Button ''SERVICES'' (SetTab ''services'') False] @
        (if a_tab st = ''products'' then
           AdminProducts_list (a_products st) @
           [Text ''New product'', Field ''Name'', Field ''Description'', Field ''Category'',
            Field ''Price'', Field ''Stock'', Field ''Images (comma-separated URLs)'',
            Button ''Create'' CreateProduct False]
         else []) @
        (if a_tab st = ''orders'' then AdminOrders_list (a_orders st) else []) @
        (if a_tab st = ''customers'' then AdminCustomers_list (a_users st) else []) @
        (if a_tab st = ''services'' then AdminServices_list (a_svcs st) else []))"

section \<open>The camera dashboard (src/unnamed/part_000)\<close>

record dashboard =
  d_tab :: string
  d_cameras :: "json list"
  d_alerts :: "json list"
  d_services :: "json list"
  d_subscription :: json

record dashboard_responses =
  r_cam :: "json list response"
  r_alert :: "json list response"
  r_svc :: "json list response"
  r_sub :: "json response"

definition Dashboard_requests :: "string \<Rightarrow> request list" where
  "Dashboard_requests tok =
     [get_request ''/cameras'' (Some tok), get_request ''/alerts'' (Some tok),
      get_request ''/services'' (Some tok), get_request ''/subscription'' (Some tok)]"

definition Dashboard_load ::
  "string \<Rightarrow> dashboard_responses \<Rightarrow> world \<times> dashboard \<Rightarrow> (error + unit) \<times> world \<times> dashboard" where
  "Dashboard_load tok rs ws =
     (let w1 = (fst ws)\<lparr>sent := sent (fst ws) @ Dashboard_requests tok\<rparr>; st = snd ws in
      if rejected (r_cam rs) \<or> rejected (r_alert rs) \<or> rejected (r_svc rs) \<or> rejected (r_sub rs)
      then (Inl TypeError, w1, st)
      else
        (case body_of (r_cam rs) of
           None \<Rightarrow> (Inl SyntaxError, w1, st)
         | Some cs \<Rightarrow>
             (case body_of (r_alert rs) of
                None \<Rightarrow> (Inl SyntaxError, w1, st\<lparr>d_cameras := cs\<rparr>)
              | Some als \<Rightarrow>
                  (case body_of (r_svc rs) of
                     None \<Rightarrow> (Inl SyntaxError, w1, st\<lparr>d_cameras := cs, d_alerts := als\<rparr>)
                   | Some ss \<Rightarrow>
                       (case body_of (r_sub rs) of
                          None \<Rightarrow>
                            (Inl SyntaxError, w1,
                             st\<lparr>d_cameras := cs, d_alerts := als, d_services := ss\<rparr>)
                        | Some sub \<Rightarrow>
                            (Inr (), w1,
                             st\<lparr>d_cameras := cs, d_alerts := als, d_services := ss,
                                d_subscription := sub\<rparr>))))))"



definition pay_request :: "string \<Rightarrow> request" where
  "pay_request tok =
     \<lparr>rmethod = POST, rpath = ''/payments/checkout'', rbearer = Some tok,
      rbody = Some (PaymentBody (fl (1999 / 100)) ''Monthly subscription'' None)\<rparr>"

definition pay ::
  "string \<Rightarrow> json response \<Rightarrow> dashboard_responses \<Rightarrow> world \<times> dashboard \<Rightarrow>
   (error + unit) \<times> world \<times> dashboard" where
  "pay tok res rs ws =
     (let w1 = fetch (pay_request tok) (fst ws) in
      if rejected res then (Inl TypeError, w1, snd ws)
      else
        (case Dashboard_load tok rs (w1, snd ws) of
           (Inl e, w2, st) \<Rightarrow> (Inl e, w2, st)
         | (Inr u, w2, st) \<Rightarrow> (Inr (), alert ''Payment successful'' w2, st)))"

text \<open>The card that adds a camera: its three inputs, and \<open>add\<close>, which calls the
  dashboard's \<open>load\<close> (passed as \<open>onAdded\<close>) without awaiting it.\<close>

record camera_form =
  c_name :: string
  c_location :: string
  c_stream_url :: string

definition add_request :: "string \<Rightarrow> camera_form \<Rightarrow> request" where
  "add_request tok f =
     \<lparr>rmethod = POST, rpath = ''/cameras'', rbearer = Some tok,
      rbody = Some (CameraBody (c_name f) (c_location f) (c_stream_url f))\<rparr>"

definition add ::
  "string \<Rightarrow> json response \<Rightarrow> dashboard_responses \<Rightarrow> world \<times> camera_form \<times> dashboard \<Rightarrow>
   (error + unit) \<times> world \<times> camera_form \<times> dashboard" where
  "add tok res rs wfs =
     (let w = fst wfs; f = fst (snd wfs); st = snd (snd wfs);
          w1 = fetch (add_request tok f) w in
      if rejected res then (Inl TypeError, w1, f, st)
      else
        (case Dashboard_load tok rs (w1, st) of
           (out, w2, st') \<Rightarrow>
             (Inr (), w2, \<lparr>c_name = [], c_location = [], c_stream_url = []\<rparr>, st')))"

record admin1 =
  a1_tab :: string
  a1_users :: "json list"
  a1_cams :: "json list"
  a1_svcs :: "json list"
  a1_alertMsg :: string
  a1_alertTitle :: string

record admin1_responses =
  r1_users :: "json list response"
  r1_cams :: "json list response"
  r1_svcs :: "json list response"

definition AdminPanel1_requests :: "string \<Rightarrow> request list" where
  "AdminPanel1_requests tok =
     [get_request ''/admin/users'' (Some tok), get_request ''/admin/cameras'' (Some tok),
      get_request ''/admin/services'' (Some tok)]"

definition AdminPanel1_load ::
  "string \<Rightarrow> json \<Rightarrow> admin1_responses \<Rightarrow> world \<times> admin1 \<Rightarrow> (error + unit) \<times> world \<times> admin1" where
  "AdminPanel1_load tok usr rs ws =
     (let w = fst ws; st = snd ws in
      if \<not> isAdmin usr then (Inr (), w, st)
      else
        (let w1 = w\<lparr>sent := sent w @ AdminPanel1_requests tok\<rparr> in
         if rejected (r1_users rs) \<or> rejected (r1_cams rs) \<or> rejected (r1_svcs rs)
         then (Inl TypeError, w1, st)
         else
           (case body_of (r1_users rs) of
              None \<Rightarrow> (Inl SyntaxError, w1, st)
            | Some us \<Rightarrow>
                (case body_of (r1_cams rs) of
                   None \<Rightarrow> (Inl SyntaxError, w1, st\<lparr>a1_users := us\<rparr>)
                 | Some cs \<Rightarrow>
                     (case body_of (r1_svcs rs) of
                        None \<Rightarrow> (Inl SyntaxError, w1, st\<lparr>a1_users := us, a1_cams := cs\<rparr>)
                      | Some ss \<Rightarrow>
                          (Inr (), w1, st\<lparr>a1_users := us, a1_cams := cs, a1_svcs := ss\<rparr>))))))"



subsection \<open>Views of the camera dashboard\<close>





definition Admin1_users_list :: "json list \<Rightarrow> node list" where
  "Admin1_users_list users = map (\<lambda>u. Card u []) users"

definition Admin1_cameras_list :: "json list \<Rightarrow> node list" where
  "Admin1_cameras_list cams = map (\<lambda>c. Card c []) cams"

definition Admin1_services_list :: "json list \<Rightarrow> node list" where
  "Admin1_services_list svcs = map (\<lambda>s. Card s []) svcs"

definition AdminPanel1_view :: "json \<Rightarrow> admin1 \<Rightarrow> node list" where
  "AdminPanel1_view usr st =
     (if \<not> isAdmin usr then [Text ''Admin panel available for admin accounts.'']
      else
        [Button ''USERS'' (SetTab ''users'') False,
         Button ''CAMERAS'' (SetTab ''cameras'') False,
         Button ''SERVICES'' (SetTab ''services'') False,
         Button ''ALERTS'' (SetTab ''alerts'') False] @
        (if a1_tab st = ''users'' then Admin1_users_list (a1_users st) else []) @
        (if a1_tab st = ''cameras'' then Admin1_cameras_list (a1_cams st) else []) @
        (if a1_tab st = ''services'' then Admin1_services_list (a1_svcs st) else []) @
        (if a1_tab st = ''alerts''
         then [Field ''Title'', Field ''Message'', Button ''Send Alert'' SendAlert False]
         else []))"


section \<open>Sample data\<close>

text \<open>A fresh browser, and the cart of the specification's example: one line of price 10
  and quantity 2, one of price 5 and quantity 1.\<close>

definition fresh_world :: world where
  "fresh_world =
     \<lparr>storage = \<lparr>ls_token = None, ls_user = None, ls_cart = None\<rparr>, sent = [], alerts = []\<rparr>"

definition sample_lines :: "cart_item list" where
  "sample_lines =
     [\<lparr>product_id = ''p1'', name = ''Dome camera'', price = Fin 10, qty = Fin 2, image = None\<rparr>,
      \<lparr>product_id = ''p2'', name = ''Cable'', price = Fin 5, qty = Fin 1, image = None\<rparr>]"

definition sample_cart :: cart where
  "sample_cart = \<lparr>items = sample_lines, address = ''1 Main St''\<rparr>"

definition sample_order :: order_data where
  "sample_order = \<lparr>o_id = ''o1'', o_total = Fin (107 / 4)\<rparr>"

definition sample_admin :: json where
  "sample_admin = JObj [(''_id'', JStr ''u1''), (''name'', JStr ''Ann''), (''role'', JStr ''admin'')]"

definition sample_customer :: json where
  "sample_customer = JObj [(''_id'', JStr ''u2''), (''name'', JStr ''Bob''), (''role'', JStr ''customer'')]"

definition sample_world :: world where
  "sample_world = fresh_world\<lparr>storage := (storage fresh_world)\<lparr>ls_cart := Some sample_lines\<rparr>\<rparr>"

definition sample_admin_state :: admin where
  "sample_admin_state =
     \<lparr>a_tab = ''products'', a_users = [], a_products = [JObj [(''_id'', JStr ''p1'')]],
      a_orders = [], a_svcs = [], a_pForm = empty_form\<rparr>"

definition sample_admin_responses :: admin_responses where
  "sample_admin_responses =
     \<lparr>r_users = Response True (Some [sample_admin, sample_customer]),
      r_products = Response True (Some []),
      r_orders = Response True (Some []),
      r_svcs = Response True (Some [])\<rparr>"

definition sample_admin1_state :: admin1 where
  "sample_admin1_state =
     \<lparr>a1_tab = ''users'', a1_users = [], a1_cams = [], a1_svcs = [],
      a1_alertMsg = ''Door open'', a1_alertTitle = ''Motion detected''\<rparr>"



text \<open>Two carts of a single line: one at 118.50, one at 0.50.\<close>

definition cart_118_50 :: cart where
  "cart_118_50 =
     \<lparr>items = [\<lparr>product_id = ''p3'', name = ''Recorder'', price = Fin (237 / 2), qty = Fin 1,
                 image = None\<rparr>],
      address = []\<rparr>"

definition cart_0_50 :: cart where
  "cart_0_50 =
     \<lparr>items = [\<lparr>product_id = ''p4'', name = ''Screw'', price = Fin (1 / 2), qty = Fin 1,
                 image = None\<rparr>],
      address = []\<rparr>"

section \<open>Properties\<close>

subsection \<open>Rounding to a double\<close>

lemma pow2_powi: "pow2 e = 2 powi e"
  by (simp add: pow2_def power_int_def inverse_eq_divide power_one_over)

lemma pow2_pos: "0 < pow2 e"
  by (simp add: pow2_powi)

lemma pow2_add: "pow2 (a + b) = pow2 a * pow2 b"
  by (simp add: pow2_powi power_int_add)

lemma pow2_mono: "a \<le> b \<Longrightarrow> pow2 a \<le> pow2 b"
  by (simp add: pow2_powi power_int_increasing)

lemma pow2_expo_le:
  assumes "0 < a"
  shows "pow2 (expo a) \<le> a"
proof -
  obtain p d where pd: "quotient_of a = (p, d)" by (cases "quotient_of a")
  have dpos: "0 < d" using quotient_of_denom_pos [OF pd] .
  have a_eq: "a = of_int p / of_int d" using quotient_of_div [OF pd] .
  have ppos: "0 < p" using assms dpos a_eq by (simp add: zero_less_divide_iff)
  define e0 where "e0 = bitlen p - bitlen d"
  show ?thesis
  proof (cases "pow2 e0 \<le> a")
    case True
    then show ?thesis by (simp add: expo_def pd e0_def Let_def)
  next
    case False
    have bp: "2 ^ nat (bitlen p - 1) \<le> p" using bitlen_bounds [OF ppos] by simp
    have bd: "d < 2 ^ nat (bitlen d)" using bitlen_bounds [OF dpos] by simp
    have bp1: "1 \<le> bitlen p" using ppos by (simp add: bitlen_ge_iff_power)
    have bd0: "0 \<le> bitlen d" by (rule bitlen_nonneg)
    have p_r: "(2::rat) powi (bitlen p - 1) \<le> of_int p"
    proof -
      have "(of_int (2 ^ nat (bitlen p - 1)) :: rat) \<le> of_int p" using bp by (simp only: of_int_le_iff)
      then show ?thesis using bp1 by (simp add: power_int_def)
    qed
    have d_r: "(of_int d :: rat) \<le> 2 powi (bitlen d)"
    proof -
      have "(of_int d :: rat) \<le> of_int (2 ^ nat (bitlen d))" using bd by (simp only: of_int_le_iff)
      then show ?thesis using bd0 by (simp add: power_int_def)
    qed
    have "pow2 (e0 - 1) * of_int d \<le> pow2 (e0 - 1) * 2 powi (bitlen d)"
      using d_r pow2_pos [of "e0 - 1"] by simp
    also have "\<dots> = 2 powi (bitlen p - 1)"
      by (simp add: pow2_powi e0_def flip: power_int_add)
    also have "\<dots> \<le> of_int p" by (rule p_r)
    finally have "pow2 (e0 - 1) \<le> of_int p / of_int d"
      using dpos by (simp add: pos_le_divide_eq)
    then have "pow2 (e0 - 1) \<le> a" by (simp only: a_eq)
    then show ?thesis using False by (simp add: expo_def pd e0_def Let_def)
  qed
qed

lemma rne_ge_floor: "\<lfloor>m\<rfloor> \<le> rne m"
  by (simp add: rne_def Let_def)

lemma fl_not_NaN [simp]: "fl x \<noteq> NaN"
  by (simp add: fl_def Let_def)

lemma fl_ge_one:
  assumes "1 \<le> x"
  shows "num_le (Fin 1) (fl x)"
proof -
  have xpos: "0 < x" using assms by simp
  define e where "e = max (expo x) (- 1022)"
  define u where "u = pow2 (e - 52)"
  define r where "r = of_int (rne (x / u)) * u"
  have upos: "0 < u" by (simp add: u_def pow2_pos)
  have r1: "1 \<le> r"
  proof (cases "e \<le> 52")
    case True
    have inv: "1 / u = of_int (2 ^ nat (52 - e))"
      using True by (simp add: u_def pow2_powi power_int_def field_simps)
    have "1 / u \<le> x / u" using assms upos by (simp add: divide_right_mono)
    then have "of_int (2 ^ nat (52 - e)) \<le> x / u" by (simp only: inv)
    then have "2 ^ nat (52 - e) \<le> \<lfloor>x / u\<rfloor>" by (simp only: le_floor_iff)
    then have "2 ^ nat (52 - e) \<le> rne (x / u)" using rne_ge_floor [of "x / u"] by linarith
    then have "(of_int (2 ^ nat (52 - e)) :: rat) \<le> of_int (rne (x / u))" by (simp only: of_int_le_iff)
    then have "1 / u * u \<le> of_int (rne (x / u)) * u"
      using upos by (simp only: inv mult_le_cancel_right_pos)
    then show ?thesis using upos by (simp add: r_def)
  next
    case False
    then have ee: "e = expo x" by (simp add: e_def max_def split: if_splits)
    have "pow2 e \<le> x" using pow2_expo_le [OF xpos] by (simp add: ee)
    moreover have "pow2 e = pow2 52 * u" by (simp add: u_def flip: pow2_add)
    ultimately have "pow2 52 \<le> x / u" using upos by (simp add: pos_le_divide_eq)
    moreover have "(1::rat) \<le> pow2 52" by (simp add: pow2_def)
    ultimately have "1 \<le> x / u" by linarith
    then have "1 \<le> \<lfloor>x / u\<rfloor>" by (simp add: le_floor_iff)
    then have "1 \<le> rne (x / u)" using rne_ge_floor [of "x / u"] by linarith
    then have "(1::rat) \<le> of_int (rne (x / u))" by simp
    moreover have "1 \<le> u" using False pow2_mono [of 0 "e - 52"] by (simp add: u_def pow2_def)
    ultimately have "1 * 1 \<le> of_int (rne (x / u)) * u" by (intro mult_mono) auto
    then show ?thesis by (simp add: r_def)
  qed
  show ?thesis
    using r1 xpos unfolding fl_def Let_def
    by (simp add: e_def [symmetric] u_def [symmetric] r_def [symmetric])
qed

lemma pow2_less_cancel:
  assumes "pow2 a < pow2 b"
  shows "a < b"
proof (rule ccontr)
  assume "\<not> a < b"
  then have "pow2 b \<le> pow2 a" by (simp add: pow2_mono)
  with assms show False by simp
qed

lemma floor_rat_numeral: "\<lfloor>(numeral a :: rat) / numeral b\<rfloor> = numeral a div numeral b"
  using floor_divide_of_int_eq [of "numeral a" "numeral b", where ?'a = rat] by simp

lemma expo_less:
  assumes "0 < a"
  shows "a < pow2 (expo a + 1)"
proof -
  obtain p d where pd: "quotient_of a = (p, d)" by (cases "quotient_of a")
  have dpos: "0 < d" using quotient_of_denom_pos [OF pd] .
  have a_eq: "a = of_int p / of_int d" using quotient_of_div [OF pd] .
  have ppos: "0 < p" using assms dpos a_eq by (simp add: zero_less_divide_iff)
  define e0 where "e0 = bitlen p - bitlen d"
  show ?thesis
  proof (cases "pow2 e0 \<le> a")
    case False
    then show ?thesis by (simp add: expo_def pd e0_def Let_def)
  next
    case True
    have bp: "p < 2 ^ nat (bitlen p)" using bitlen_bounds [OF ppos] by simp
    have bd: "2 ^ nat (bitlen d - 1) \<le> d" using bitlen_bounds [OF dpos] by simp
    have bd1: "1 \<le> bitlen d" using dpos by (simp add: bitlen_ge_iff_power)
    have bp0: "0 \<le> bitlen p" by (rule bitlen_nonneg)
    have p_r: "of_int p < (2::rat) powi (bitlen p)"
    proof -
      have "(of_int p :: rat) < of_int (2 ^ nat (bitlen p))" using bp by (simp only: of_int_less_iff)
      then show ?thesis using bp0 by (simp add: power_int_def)
    qed
    have d_r: "(2::rat) powi (bitlen d - 1) \<le> of_int d"
    proof -
      have "(of_int (2 ^ nat (bitlen d - 1)) :: rat) \<le> of_int d" using bd by (simp only: of_int_le_iff)
      then show ?thesis using bd1 by (simp add: power_int_def)
    qed
    have "of_int p < (2::rat) powi (bitlen p)" by (rule p_r)
    also have "\<dots> = pow2 (e0 + 1) * 2 powi (bitlen d - 1)"
      by (simp add: pow2_powi e0_def flip: power_int_add)
    also have "\<dots> \<le> pow2 (e0 + 1) * of_int d"
      using d_r pow2_pos [of "e0 + 1"] by simp
    finally have "of_int p / of_int d < pow2 (e0 + 1)"
      using dpos by (simp add: pos_divide_less_eq)
    then have "a < pow2 (e0 + 1)" by (simp only: a_eq)
    then show ?thesis using True by (simp add: expo_def pd e0_def Let_def)
  qed
qed

lemma expo_unique:
  assumes "pow2 e \<le> a" and "a < pow2 (e + 1)"
  shows "expo a = e"
proof -
  have apos: "0 < a" using assms(1) pow2_pos [of e] by linarith
  have "pow2 (expo a) < pow2 (e + 1)" using pow2_expo_le [OF apos] assms(2) by linarith
  then have "expo a < e + 1" by (rule pow2_less_cancel)
  moreover have "pow2 e < pow2 (expo a + 1)" using expo_less [OF apos] assms(1) by linarith
  then have "e < expo a + 1" by (rule pow2_less_cancel)
  ultimately show ?thesis by linarith
qed

lemma fl_eqI:
  assumes "pow2 e \<le> q" and "q < pow2 (e + 1)" and "- 1022 \<le> e"
    and "rne (q / pow2 (e - 52)) = n" and "of_int n * pow2 (e - 52) = r" and "r < pow2 1024"
  shows "fl q = Fin r"
proof -
  have qpos: "0 < q" using assms(1) pow2_pos [of e] by linarith
  have ex: "expo q = e" using assms(1,2) by (rule expo_unique)
  have mx: "max (expo q) (- 1022) = e" using assms(3) by (simp add: ex)
  have aq: "\<bar>q\<bar> = q" using qpos by simp
  have "fl q = (if pow2 1024 \<le> r then PInf else Fin r)"
    using qpos unfolding fl_def Let_def aq mx by (simp add: assms(4,5))
  then show ?thesis using assms(6) by simp
qed

text \<open>The roundings the specification's example goes through.\<close>

lemma fl_7_100: "fl (7 / 100) = Fin (1261007895663739 / 18014398509481984)"
  by (rule fl_eqI [where e = "- 4" and n = 5044031582654956]) (simp_all add: pow2_def rne_def Let_def floor_rat_numeral)

lemma fl_20: "fl 20 = Fin 20"
  by (rule fl_eqI [where e = 4 and n = "5 * 2 ^ 50"]) (simp_all add: pow2_def rne_def Let_def floor_rat_numeral)

lemma fl_5: "fl 5 = Fin 5"
  by (rule fl_eqI [where e = 2 and n = "5 * 2 ^ 50"]) (simp_all add: pow2_def rne_def Let_def floor_rat_numeral)

lemma fl_25: "fl 25 = Fin 25"
  by (rule fl_eqI [where e = 4 and n = "25 * 2 ^ 48"]) (simp_all add: pow2_def rne_def Let_def floor_rat_numeral)

lemma fl_tax: "fl (31525197391593475 / 18014398509481984) = Fin (7881299347898369 / 4503599627370496)"
  by (rule fl_eqI [where e = 0 and n = 7881299347898369]) (simp_all add: pow2_def rne_def Let_def floor_rat_numeral)

lemma fl_7_4: "fl (7 / 4) = Fin (7 / 4)"
  by (rule fl_eqI [where e = 0 and n = "7 * 2 ^ 50"]) (simp_all add: pow2_def rne_def Let_def floor_rat_numeral)

lemma fl_107_4: "fl (107 / 4) = Fin (107 / 4)"
  by (rule fl_eqI [where e = 4 and n = "107 * 2 ^ 46"]) (simp_all add: pow2_def rne_def Let_def floor_rat_numeral)

subsection \<open>Cart arithmetic\<close>

lemma foldl_exact:
  "exact_lines s xs \<Longrightarrow>
   foldl (\<lambda>s i. num_add s (num_mul (price i) (qty i))) (Fin s) xs = Fin (s + spec_subtotal xs)"
proof (induction xs arbitrary: s)
  case Nil
  then show ?case by (simp add: spec_subtotal_def)
next
  case (Cons i xs)
  from Cons.prems obtain p q where p: "price i = Fin p" and q: "qty i = Fin q"
    by (auto simp: finite_num_def split: jsnum.splits)
  from Cons.prems have e1: "fl (p * q) = Fin (p * q)" and e2: "fl (s + p * q) = Fin (s + p * q)"
    and rest: "exact_lines (s + p * q) xs"
    by (simp_all add: p q rat_of_def exact_def)
  have "num_add (Fin s) (num_mul (price i) (qty i)) = Fin (s + p * q)"
    by (simp add: p q e1 e2)
  then show ?case
    using Cons.IH [OF rest] by (simp add: spec_subtotal_def p q rat_of_def)
qed

lemma subtotal_exact:
  "exact_lines 0 (items c) \<Longrightarrow> subtotal c = Fin (spec_subtotal (items c))"
  using foldl_exact [of 0 "items c"] by (simp add: subtotal_def)

lemma cents_near: "\<bar>of_int (cents q) / 100 - \<bar>q\<bar>\<bar> \<le> 1 / 200"
proof -
  have "of_int (cents q) \<le> \<bar>q\<bar> * 100 + 1 / 2"
    unfolding cents_def by (rule of_int_floor_le)
  moreover have "\<bar>q\<bar> * 100 + 1 / 2 < of_int (cents q) + 1"
    unfolding cents_def by linarith
  ultimately have "- (1 / 200) \<le> of_int (cents q) / 100 - \<bar>q\<bar>"
    and "of_int (cents q) / 100 - \<bar>q\<bar> \<le> 1 / 200"
    by linarith+
  then show ?thesis by (auto simp only: abs_le_iff)
qed

lemma toFixed2_near:
  assumes "\<bar>q\<bar> < 10 ^ 21"
  shows "\<exists>n::int. toFixed2 (Fin q) = fl (of_int n / 100) \<and> \<bar>of_int n / 100 - q\<bar> \<le> 1 / 200"
proof (cases "q < 0")
  case True
  have "toFixed2 (Fin q) = fl (of_int (- cents q) / 100)"
    using assms True by (simp add: toFixed2_def)
  moreover have "\<bar>of_int (- cents q) / 100 - q\<bar> \<le> 1 / 200"
  proof -
    have "of_int (- cents q) / 100 - q = - (of_int (cents q) / 100 - \<bar>q\<bar>)"
      using True by simp
    then show ?thesis using cents_near [of q] by (simp only: abs_minus_cancel)
  qed
  ultimately show ?thesis by blast
next
  case False
  have "toFixed2 (Fin q) = fl (of_int (cents q) / 100)"
    using assms False by (simp add: toFixed2_def)
  moreover have "\<bar>of_int (cents q) / 100 - q\<bar> \<le> 1 / 200"
  proof -
    have "of_int (cents q) / 100 - q = of_int (cents q) / 100 - \<bar>q\<bar>"
      using False by simp
    then show ?thesis using cents_near [of q] by (simp only:)
  qed
  ultimately show ?thesis by blast
qed

lemma tax_rate_value: "tax_rate = Fin (1261007895663739 / 18014398509481984)"
  by (simp add: tax_rate_def fl_7_100)

lemma sample_subtotal: "subtotal sample_cart = Fin 25"
  by (simp add: subtotal_def sample_cart_def sample_lines_def fl_20 fl_5 fl_25)

lemma cents_tax: "cents (7881299347898369 / 4503599627370496) = 175"
  by (simp add: cents_def floor_rat_numeral)

lemma sample_tax: "tax sample_cart = Fin (7 / 4)"
proof -
  have "num_mul (subtotal sample_cart) tax_rate = Fin (7881299347898369 / 4503599627370496)"
    by (simp add: sample_subtotal tax_rate_value fl_tax)
  then show ?thesis
    by (simp add: tax_def toFixed2_def cents_tax fl_7_4)
qed

lemma cents_total: "cents (107 / 4) = 2675"
  by (simp add: cents_def floor_rat_numeral)

lemma sample_total: "total sample_cart = Fin (107 / 4)"
proof -
  have "num_add (subtotal sample_cart) (tax sample_cart) = Fin (107 / 4)"
    by (simp add: sample_subtotal sample_tax fl_107_4)
  then show ?thesis
    by (simp add: total_def toFixed2_def cents_total fl_107_4)
qed

lemma sample_exact: "exact_lines 0 (items sample_cart)"
  by (simp add: sample_cart_def sample_lines_def finite_num_def rat_of_def exact_def
        fl_20 fl_5 fl_25)

lemma sample_spec:
  "spec_subtotal (items sample_cart) = 25 \<and> spec_tax (items sample_cart) = 7 / 4 \<and>
   spec_total (items sample_cart) = 107 / 4"
proof -
  have s: "spec_subtotal (items sample_cart) = 25"
    by (simp add: spec_subtotal_def sample_cart_def sample_lines_def rat_of_def)
  have "spec_tax (items sample_cart) = spec_round2 (25 * (7 / 100))"
    by (simp only: spec_tax_def s)
  also have "\<dots> = 7 / 4"
    by (simp add: spec_round2_def cents_def floor_rat_numeral)
  finally have t: "spec_tax (items sample_cart) = 7 / 4" .
  have "spec_total (items sample_cart) = spec_round2 (25 + 7 / 4)"
    by (simp only: spec_total_def s t)
  also have "\<dots> = 107 / 4"
    by (simp add: spec_round2_def cents_def floor_rat_numeral)
  finally show ?thesis using s t by blast
qed

text \<open>
  Claim C1, as amended. For every cart, in the double arithmetic of the language: the
  subtotal is the sum, taken from 0 over the lines in order, of the rounded products price
  times quantity; the tax is the product of the subtotal and the double nearest to 0.07,
  rounded to two decimals; the total is the subtotal plus the tax, rounded to two decimals.
  Whenever the line totals and the running sum are themselves doubles, the subtotal is the
  exact sum of price times quantity. Rounding to two decimals yields the double nearest to a
  two-decimal number within half a cent of its argument. The cart of one line at price 10,
  quantity 2 and one at price 5, quantity 1 gives 25, 1.75 and 26.75, as exact arithmetic
  does.
\<close>

theorem cart_arithmetic:
  "subtotal c = foldl (\<lambda>s i. num_add s (num_mul (price i) (qty i))) (Fin 0) (items c) \<and>
   tax c = toFixed2 (num_mul (subtotal c) (fl (7 / 100))) \<and>
   total c = toFixed2 (num_add (subtotal c) (tax c)) \<and>
   (exact_lines 0 (items c) \<longrightarrow> subtotal c = Fin (spec_subtotal (items c))) \<and>
   (\<bar>q\<bar> < 10 ^ 21 \<longrightarrow>
      (\<exists>n::int. toFixed2 (Fin q) = fl (of_int n / 100) \<and> \<bar>of_int n / 100 - q\<bar> \<le> 1 / 200)) \<and>
   subtotal sample_cart = Fin (spec_subtotal (items sample_cart)) \<and>
   tax sample_cart = Fin (spec_tax (items sample_cart)) \<and>
   total sample_cart = Fin (spec_total (items sample_cart)) \<and>
   subtotal sample_cart = Fin 25 \<and> tax sample_cart = Fin (7 / 4) \<and>
   total sample_cart = Fin (107 / 4)"
proof -
  have defs: "subtotal c = foldl (\<lambda>s i. num_add s (num_mul (price i) (qty i))) (Fin 0) (items c)"
    "tax c = toFixed2 (num_mul (subtotal c) (fl (7 / 100)))"
    "total c = toFixed2 (num_add (subtotal c) (tax c))"
    by (simp_all add: subtotal_def tax_def total_def tax_rate_def)
  have ex: "subtotal sample_cart = Fin (spec_subtotal (items sample_cart))"
    "tax sample_cart = Fin (spec_tax (items sample_cart))"
    "total sample_cart = Fin (spec_total (items sample_cart))"
    using sample_spec by (simp_all only: sample_subtotal sample_tax sample_total)
  show ?thesis
    using defs ex subtotal_exact [of c] toFixed2_near [of q] sample_subtotal sample_tax sample_total
    by blast
qed

theorem cart_arithmetic_witness:
  "exact_lines 0 (items sample_cart) \<and>
   spec_subtotal (items sample_cart) = 25 \<and>
   subtotal sample_cart = Fin (spec_subtotal (items sample_cart)) \<and>
   \<bar>7881299347898369 / 4503599627370496 :: rat\<bar> < 10 ^ 21 \<and>
   (\<exists>n::int. toFixed2 (Fin (7881299347898369 / 4503599627370496)) = fl (of_int n / 100) \<and>
      \<bar>of_int n / 100 - 7881299347898369 / 4503599627370496\<bar> \<le> (1 / 200 :: rat))"
proof -
  have s: "spec_subtotal (items sample_cart) = 25"
    using sample_spec by blast
  have b: "\<bar>7881299347898369 / 4503599627370496 :: rat\<bar> < 10 ^ 21" by simp
  show ?thesis
    using cart_arithmetic [of sample_cart "7881299347898369 / 4503599627370496"] sample_exact s b
    by blast
qed

lemma fl_237_2: "fl (237 / 2) = Fin (237 / 2)"
  by (rule fl_eqI [where e = 6 and n = 8338696185053184]) (simp_all add: pow2_def rne_def Let_def floor_rat_numeral)

lemma fl_tax_118: "fl (298858871272306143 / 36028797018963968) = Fin (4669669863629783 / 562949953421312)"
  by (rule fl_eqI [where e = 3 and n = 4669669863629783]) (simp_all add: pow2_def rne_def Let_def floor_rat_numeral)

lemma fl_829: "fl (829 / 100) = Fin (1166713778465669 / 140737488355328)"
  by (rule fl_eqI [where e = 3 and n = 4666855113862676]) (simp_all add: pow2_def rne_def Let_def floor_rat_numeral)

lemma fl_half: "fl (1 / 2) = Fin (1 / 2)"
  by (rule fl_eqI [where e = "- 1" and n = 4503599627370496]) (simp_all add: pow2_def rne_def Let_def floor_rat_numeral)

lemma fl_tax_half: "fl (1261007895663739 / 36028797018963968) = Fin (1261007895663739 / 36028797018963968)"
  by (rule fl_eqI [where e = "- 5" and n = 5044031582654956]) (simp_all add: pow2_def rne_def Let_def floor_rat_numeral)

lemma fl_4_100: "fl (1 / 25) = Fin (5764607523034235 / 144115188075855872)"
  by (rule fl_eqI [where e = "- 5" and n = 5764607523034235]) (simp_all add: pow2_def rne_def Let_def floor_rat_numeral)

lemma subtotal_118: "subtotal cart_118_50 = Fin (237 / 2)"
  by (simp add: subtotal_def cart_118_50_def fl_237_2)

lemma tax_118: "tax cart_118_50 = Fin (1166713778465669 / 140737488355328)"
proof -
  have "num_mul (subtotal cart_118_50) tax_rate = Fin (4669669863629783 / 562949953421312)"
    by (simp add: subtotal_118 tax_rate_value fl_tax_118)
  moreover have "cents (4669669863629783 / 562949953421312) = 829"
    by (simp add: cents_def floor_rat_numeral)
  ultimately show ?thesis
    by (simp add: tax_def toFixed2_def fl_829)
qed

lemma subtotal_half: "subtotal cart_0_50 = Fin (1 / 2)"
  by (simp add: subtotal_def cart_0_50_def fl_half)

lemma tax_half: "tax cart_0_50 = Fin (5764607523034235 / 144115188075855872)"
proof -
  have "num_mul (subtotal cart_0_50) tax_rate = Fin (1261007895663739 / 36028797018963968)"
    by (simp add: subtotal_half tax_rate_value fl_tax_half)
  moreover have "cents (1261007895663739 / 36028797018963968) = 4"
    by (simp add: cents_def floor_rat_numeral)
  ultimately show ?thesis
    by (simp add: tax_def toFixed2_def fl_4_100)
qed

lemma spec_118: "spec_subtotal (items cart_118_50) * (7 / 100) = 1659 / 200"
  by (simp add: spec_subtotal_def cart_118_50_def rat_of_def)

lemma spec_half: "spec_subtotal (items cart_0_50) * (7 / 100) = 7 / 200"
  by (simp add: spec_subtotal_def cart_0_50_def rat_of_def)

text \<open>
  Claim C1 as stated fails over exact arithmetic. A single line at 118.50 has the exact tax
  product 8.295, which rounds to 8.30; the cart shows the double nearest to 8.29, because
  the double product lies just below 8.295. A single line at 0.50 has the exact tax product
  0.035, and the cart shows 0.04: the two ties go opposite ways, so no rounding rule on the
  exact product gives the amounts of the cart.
\<close>

theorem exact_tax_counterexample:
  "subtotal cart_118_50 = Fin (237 / 2) \<and>
   spec_subtotal (items cart_118_50) * (7 / 100) = 1659 / 200 \<and>
   spec_tax (items cart_118_50) = 83 / 10 \<and>
   tax cart_118_50 = fl (829 / 100) \<and>
   tax cart_118_50 \<noteq> fl (spec_tax (items cart_118_50)) \<and>
   subtotal cart_0_50 = Fin (1 / 2) \<and>
   spec_subtotal (items cart_0_50) * (7 / 100) = 7 / 200 \<and>
   tax cart_0_50 = fl (4 / 100)"
proof -
  have st: "spec_subtotal (items cart_118_50) = 237 / 2"
    by (simp add: spec_subtotal_def cart_118_50_def rat_of_def)
  have "spec_tax (items cart_118_50) = spec_round2 (237 / 2 * (7 / 100))"
    by (simp only: spec_tax_def st)
  also have "\<dots> = 83 / 10"
    by (simp add: spec_round2_def cents_def floor_rat_numeral)
  finally have c: "spec_tax (items cart_118_50) = 83 / 10" .
  have f83: "fl (83 / 10) = Fin (2336242306698445 / 281474976710656)"
    by (rule fl_eqI [where e = 3 and n = 4672484613396890])
       (simp_all add: pow2_def rne_def Let_def floor_rat_numeral)
  have d: "tax cart_118_50 = fl (829 / 100)"
    by (simp only: tax_118 fl_829)
  have "fl (spec_tax (items cart_118_50)) = Fin (2336242306698445 / 281474976710656)"
    by (simp only: c f83)
  then have e: "tax cart_118_50 \<noteq> fl (spec_tax (items cart_118_50))"
    by (simp add: tax_118)
  have h: "tax cart_0_50 = fl (4 / 100)"
    by (simp add: tax_half fl_4_100)
  show ?thesis
    using subtotal_118 spec_118 c d e subtotal_half spec_half h by blast
qed

subsection \<open>Checkout\<close>

text \<open>
  Claim C2. On a cart that is not empty, \<open>placeOrder\<close> first issues the order request. Unless
  that request produced a successful response with an order, no payment request is issued
  and storage and cart stay as they were. After a successful order the payment request is
  issued; unless it succeeds, storage and cart stay as they were. The persisted cart is
  removed and the in-memory list emptied exactly when both requests succeeded, in that
  order.
\<close>

theorem placeOrder_checkout:
  assumes "items c \<noteq> []"
  shows
  "(case placeOrder tok res pres (w, c) of
      (out, w', c') \<Rightarrow>
        take (Suc (length (sent w))) (sent w') = sent w @ [order_request tok c] \<and>
        ((\<forall>order. res \<noteq> Response True (Some order)) \<longrightarrow>
           sent w' = sent w @ [order_request tok c] \<and> storage w' = storage w \<and> c' = c) \<and>
        (\<forall>order. res = Response True (Some order) \<longrightarrow>
           sent w' = sent w @ [order_request tok c, payment_request tok order] \<and>
           ((\<forall>b. pres \<noteq> Response True b) \<longrightarrow> storage w' = storage w \<and> c' = c) \<and>
           (\<forall>b. pres = Response True b \<longrightarrow>
              out = Inr () \<and> storage w' = (storage w)\<lparr>ls_cart := None\<rparr> \<and> c' = c\<lparr>items := []\<rparr>)) \<and>
        (items c' = [] \<longleftrightarrow> (\<exists>order b. res = Response True (Some order) \<and> pres = Response True b)) \<and>
        (stored_cart (storage w) = items c \<longrightarrow>
           (stored_cart (storage w') = [] \<longleftrightarrow>
              (\<exists>order b. res = Response True (Some order) \<and> pres = Response True b))))"
proof (cases res)
  case Rejected
  then show ?thesis using assms by (simp add: placeOrder_def fetch_def Let_def)
next
  case (Response ok body)
  show ?thesis
  proof (cases "ok \<and> body \<noteq> None")
    case False
    then show ?thesis using assms Response
      by (auto simp: placeOrder_def fetch_def alert_def Let_def split: option.splits)
  next
    case True
    then obtain order where b: "body = Some order" and ok: ok by auto
    show ?thesis
    proof (cases pres)
      case Rejected
      then show ?thesis using assms Response b ok
        by (simp add: placeOrder_def fetch_def Let_def)
    next
      case (Response pok pbody)
      then show ?thesis using assms \<open>res = Response ok body\<close> b ok
        by (cases pok) (simp_all add: placeOrder_def fetch_def alert_def Let_def stored_cart_def)
    qed
  qed
qed

theorem placeOrder_checkout_witness:
  "(case placeOrder ''t'' (Response False None) Rejected (sample_world, sample_cart) of
      (out, w', c') \<Rightarrow>
        sent w' = [order_request ''t'' sample_cart] \<and>
        storage w' = storage sample_world \<and> c' = sample_cart) \<and>
   (case placeOrder ''t'' (Response True (Some sample_order)) (Response False None)
           (sample_world, sample_cart) of
      (out, w', c') \<Rightarrow>
        sent w' = [order_request ''t'' sample_cart, payment_request ''t'' sample_order] \<and>
        storage w' = storage sample_world \<and> c' = sample_cart) \<and>
   (case placeOrder ''t'' (Response True (Some sample_order)) (Response True None)
           (sample_world, sample_cart) of
      (out, w', c') \<Rightarrow>
        out = Inr () \<and> items c' = [] \<and> ls_cart (storage w') = None)"
proof -
  have ne: "items sample_cart \<noteq> []"
    by (simp add: sample_cart_def sample_lines_def)
  have s0: "sent sample_world = []"
    by (simp add: sample_world_def fresh_world_def)
  note a = placeOrder_checkout [where c = sample_cart and tok = "''t''" and w = sample_world
      and res = "Response False None" and pres = Rejected, OF ne]
  note b = placeOrder_checkout [where c = sample_cart and tok = "''t''" and w = sample_world
      and res = "Response True (Some sample_order)" and pres = "Response False None", OF ne]
  note c = placeOrder_checkout [where c = sample_cart and tok = "''t''" and w = sample_world
      and res = "Response True (Some sample_order)" and pres = "Response True None", OF ne]
  show ?thesis
    using a b c by (auto simp: s0 split: prod.splits)
qed

text \<open>
  Claim C10. \<open>placeOrder\<close> on an empty cart does nothing: no request is issued, and storage,
  cart and every other part of the state are returned unchanged. The button that triggers it
  is rendered disabled.
\<close>

theorem placeOrder_empty:
  assumes "items c = []"
  shows "placeOrder tok res pres (w, c) = (Inr (), w, c) \<and>
         Button ''Place order'' PlaceOrder True \<in> set (Cart_view c)"
  using assms by (simp add: placeOrder_def Cart_view_def)

theorem placeOrder_empty_witness:
  "placeOrder ''t'' (Response True (Some sample_order)) (Response True None)
     (fresh_world, \<lparr>items = [], address = ''1 Main St''\<rparr>) =
   (Inr (), fresh_world, \<lparr>items = [], address = ''1 Main St''\<rparr>)"
  using placeOrder_empty [where c = "\<lparr>items = [], address = ''1 Main St''\<rparr>" and tok = "''t''"
      and res = "Response True (Some sample_order)" and pres = "Response True None"
      and w = fresh_world]
  by simp

subsection \<open>Quantities\<close>

lemma Math_max_floor:
  assumes "y \<noteq> NaN"
  shows "num_le (Fin 1) (Math_max (Fin 1) y)"
  using assms by (cases y) (auto simp: Math_max_def)

lemma num_add_Fin_not_NaN:
  assumes "num_le (Fin 1) q"
  shows "num_add q (Fin d) \<noteq> NaN"
  using assms by (cases q) auto

lemma num_add_one_ge:
  assumes "num_le (Fin 1) q"
  shows "num_le (Fin 1) (num_add q (Fin 1))"
proof (cases q)
  case (Fin a)
  then have "1 \<le> a + 1" using assms by simp
  then show ?thesis using Fin by (simp add: fl_ge_one)
qed (use assms in auto)

lemma findIndex_Some:
  "findIndex P xs = Some k \<Longrightarrow> k < length xs \<and> P (xs ! k)"
  by (induction xs arbitrary: k) (auto split: if_splits)

lemma qty_ok_update:
  assumes "qty_ok xs" and "k < length xs" and "num_le (Fin 1) (qty y)"
  shows "qty_ok (xs[k := y])"
  using assms unfolding qty_ok_def list_all_iff
  by (auto dest!: set_update_subset_insert [THEN subsetD])

lemma addToCart_qty:
  assumes "qty_ok (stored_cart (storage w))"
  shows "qty_ok (stored_cart (storage (addToCart p w)))"
proof (cases "findIndex (\<lambda>i. product_id i = p_id p) (stored_cart (storage w))")
  case None
  then show ?thesis using assms
    by (simp add: addToCart_def setCart_def alert_def stored_cart_def qty_ok_def Let_def)
next
  case (Some k)
  let ?xs = "stored_cart (storage w)"
  have k: "k < length ?xs" using findIndex_Some [OF Some] by simp
  then have "num_le (Fin 1) (qty (?xs ! k))"
    using assms by (simp add: qty_ok_def list_all_length)
  then have "num_le (Fin 1) (qty ((?xs ! k)\<lparr>qty := num_add (qty (?xs ! k)) (Fin 1)\<rparr>))"
    by (simp add: num_add_one_ge)
  from qty_ok_update [OF assms k this] show ?thesis
    using Some by (simp add: addToCart_def setCart_def alert_def stored_cart_def Let_def)
qed

lemma updateQty_qty:
  assumes "qty_ok (items c)"
  shows "qty_ok (items (snd (updateQty pid (Fin d) (w, c))))"
  using assms
  by (auto simp: updateQty_def qty_ok_def list_all_iff Let_def
           intro!: Math_max_floor num_add_Fin_not_NaN)

lemma removeItem_qty:
  assumes "qty_ok (items c)"
  shows "qty_ok (items (snd (removeItem pid (w, c))))"
  using assms by (auto simp: removeItem_def qty_ok_def list_all_iff Let_def)

lemma fl_zero: "fl 0 = Fin 0"
  by (simp add: fl_def)

lemma decrement_at_one:
  "Math_max (Fin 1) (num_add (Fin 1) (Fin (- 1))) = Fin 1"
  by (simp add: fl_zero Math_max_def)

lemma updateQty_storage:
  "stored_cart (storage (fst (updateQty pid dl (w, c)))) = items (snd (updateQty pid dl (w, c)))"
  by (simp add: updateQty_def setCart_def stored_cart_def Let_def)

lemma updateQty_ids:
  "map product_id (items (snd (updateQty pid dl (w, c)))) = map product_id (items c)"
  by (simp add: updateQty_def Let_def comp_def)

lemma updateQty_at_one:
  assumes "k < length (items c)" and "qty (items c ! k) = Fin 1"
  shows "items (snd (updateQty pid (Fin (- 1)) (w, c))) ! k = items c ! k"
proof -
  have "(items c ! k)\<lparr>qty := qty (items c ! k)\<rparr> = items c ! k" by simp
  then have "(items c ! k)\<lparr>qty := Fin 1\<rparr> = items c ! k" by (simp only: assms(2))
  then show ?thesis
    using assms by (simp add: updateQty_def Let_def fl_zero Math_max_def)
qed

text \<open>
  Claim C3. When every line has a quantity of at least 1, so has every line after
  \<open>addToCart\<close>, after \<open>updateQty\<close> with +1 or with -1, and after \<open>removeItem\<close>.
  \<open>updateQty\<close> and \<open>removeItem\<close> persist the list they compute; \<open>updateQty\<close> keeps every
  line in place, and decrementing a line whose quantity is 1 leaves that line as it was.
\<close>

theorem cart_qty_floor:
  "(qty_ok (stored_cart (storage w)) \<longrightarrow> qty_ok (stored_cart (storage (addToCart p w)))) \<and>
   (qty_ok (items c) \<longrightarrow>
      qty_ok (items (snd (updateQty pid (Fin 1) (w, c)))) \<and>
      qty_ok (items (snd (updateQty pid (Fin (- 1)) (w, c)))) \<and>
      qty_ok (items (snd (removeItem pid (w, c))))) \<and>
   stored_cart (storage (fst (updateQty pid dl (w, c)))) = items (snd (updateQty pid dl (w, c))) \<and>
   stored_cart (storage (fst (removeItem pid (w, c)))) = items (snd (removeItem pid (w, c))) \<and>
   map product_id (items (snd (updateQty pid dl (w, c)))) = map product_id (items c) \<and>
   (k < length (items c) \<and> qty (items c ! k) = Fin 1 \<longrightarrow>
      items (snd (updateQty pid (Fin (- 1)) (w, c))) ! k = items c ! k)"
proof -
  have rm: "stored_cart (storage (fst (removeItem pid (w, c)))) = items (snd (removeItem pid (w, c)))"
    by (simp add: removeItem_def setCart_def stored_cart_def Let_def)
  show ?thesis
    using addToCart_qty [of w p] updateQty_qty [of c pid 1 w] updateQty_qty [of c pid "- 1" w]
      removeItem_qty [of c pid w] updateQty_storage [of pid dl w c] updateQty_ids [of pid dl w c]
      updateQty_at_one [of k c pid w] rm
    by blast
qed

theorem cart_qty_floor_witness:
  "qty_ok (stored_cart (storage (addToCart
      \<lparr>p_id = ''p1'', p_name = ''Dome camera'', p_description = [], p_price = Fin 10,
       p_images = None\<rparr> sample_world))) \<and>
   qty_ok (items (snd (updateQty ''p2'' (Fin (- 1)) (sample_world, sample_cart)))) \<and>
   qty_ok (items (snd (removeItem ''p2'' (sample_world, sample_cart)))) \<and>
   items (snd (updateQty ''p2'' (Fin (- 1)) (sample_world, sample_cart))) ! 1 = sample_lines ! 1"
proof -
  have q: "qty_ok sample_lines"
    by (simp add: qty_ok_def sample_lines_def)
  have a: "qty_ok (stored_cart (storage sample_world))"
    using q by (simp add: sample_world_def stored_cart_def)
  have b: "qty_ok (items sample_cart)"
    using q by (simp add: sample_cart_def)
  have k: "1 < length (items sample_cart) \<and> qty (items sample_cart ! 1) = Fin 1"
    by (simp add: sample_cart_def sample_lines_def)
  have i: "items sample_cart = sample_lines"
    by (simp add: sample_cart_def)
  show ?thesis
    using a b k
      cart_qty_floor [where w = sample_world and c = sample_cart and pid = "''p2''" and k = 1
        and p = "\<lparr>p_id = ''p1'', p_name = ''Dome camera'', p_description = [], p_price = Fin 10,
                  p_images = None\<rparr>"]
    by (simp add: i)
qed

subsection \<open>Panels\<close>






text \<open>
  Claim C9. For a user whose role is not "admin", both admin panels render the informational
  text and nothing else, whatever their state holds, and their load routines issue no
  request and change nothing.
\<close>

theorem non_admin_panel:
  assumes "get_prop ''role'' usr \<noteq> Some (JStr ''admin'')"
  shows "AdminPanel_view usr st = [Text ''Admin dashboard is available for admin accounts.''] \<and>
         AdminPanel_load tok usr rs (w, st) = (Inr (), w, st) \<and>
         AdminPanel1_view usr st1 = [Text ''Admin panel available for admin accounts.''] \<and>
         AdminPanel1_load tok usr rs1 (w, st1) = (Inr (), w, st1)"
  using assms
  by (simp add: AdminPanel_view_def AdminPanel_load_def AdminPanel1_view_def
        AdminPanel1_load_def isAdmin_def)

theorem non_admin_panel_witness:
  "AdminPanel_view sample_customer sample_admin_state =
     [Text ''Admin dashboard is available for admin accounts.''] \<and>
   AdminPanel_load ''t'' sample_customer sample_admin_responses (fresh_world, sample_admin_state) =
     (Inr (), fresh_world, sample_admin_state) \<and>
   AdminPanel1_view JNull sample_admin1_state = [Text ''Admin panel available for admin accounts.'']"
proof -
  have r: "get_prop ''role'' sample_customer \<noteq> Some (JStr ''admin'')"
    by (simp add: get_prop_def sample_customer_def)
  have n: "get_prop ''role'' JNull \<noteq> Some (JStr ''admin'')"
    by (simp add: get_prop_def)
  show ?thesis
    using non_admin_panel [OF r, of sample_admin_state "''t''" sample_admin_responses fresh_world]
      non_admin_panel [OF n, where ?st1.0 = sample_admin1_state]
    by simp
qed

subsection \<open>Session\<close>

text \<open>
  Claim C6. For every email and password, \<open>login\<close> issues the POST request to
  \<^verbatim>\<open>/auth/login\<close>. It fails with the error "Invalid credentials" exactly when a response
  arrived whose status is not a success, and then neither the persisted storage nor the
  in-memory session changes. When the response is a success carrying the session data,
  \<open>login\<close> returns normally, the token and the serialised user are written to storage
  and the in-memory token and user are these same values.
\<close>

theorem login_outcome:
  "(case login email password res (w, a) of
      (out, w', a') \<Rightarrow>
        sent w' = sent w @ [login_request email password] \<and>
        alerts w' = alerts w \<and>
        (out = Inl (Error ''Invalid credentials'') \<longleftrightarrow> (\<exists>body. res = Response False body)) \<and>
        ((\<exists>body. res = Response False body) \<longrightarrow> storage w' = storage w \<and> a' = a) \<and>
        (\<forall>d. res = Response True (Some d) \<longrightarrow>
           out = Inr () \<and>
           ls_token (storage w') = Some (d_token d) \<and>
           ls_user (storage w') = Some (JSON_stringify (d_user d)) \<and>
           ls_cart (storage w') = ls_cart (storage w) \<and>
           token a' = d_token d \<and> user a' = d_user d))"
  by (cases res) (auto simp: login_def fetch_def store_session_def Let_def split: option.splits)

theorem login_outcome_witness:
  "(case login ''a@b.c'' ''pw'' (Response False None)
          (\<lparr>storage = \<lparr>ls_token = None, ls_user = None, ls_cart = None\<rparr>, sent = [], alerts = []\<rparr>,
           \<lparr>token = [], user = JNull\<rparr>) of
      (out, w', a') \<Rightarrow>
        out = Inl (Error ''Invalid credentials'') \<and>
        storage w' = \<lparr>ls_token = None, ls_user = None, ls_cart = None\<rparr> \<and>
        a' = \<lparr>token = [], user = JNull\<rparr>) \<and>
   (case login ''a@b.c'' ''pw''
          (Response True (Some \<lparr>d_token = ''t1'', d_user = JObj [(''role'', JStr ''admin'')]\<rparr>))
          (\<lparr>storage = \<lparr>ls_token = None, ls_user = None, ls_cart = None\<rparr>, sent = [], alerts = []\<rparr>,
           \<lparr>token = [], user = JNull\<rparr>) of
      (out, w', a') \<Rightarrow>
        out = Inr () \<and> ls_token (storage w') = Some ''t1'' \<and>
        token a' = ''t1'' \<and> user a' = JObj [(''role'', JStr ''admin'')])"
  using login_outcome [where email = "''a@b.c''" and password = "''pw''" and res = "Response False None"
          and w = "\<lparr>storage = \<lparr>ls_token = None, ls_user = None, ls_cart = None\<rparr>, sent = [], alerts = []\<rparr>"
          and a = "\<lparr>token = [], user = JNull\<rparr>"]
        login_outcome [where email = "''a@b.c''" and password = "''pw''" and res =
          "Response True (Some \<lparr>d_token = ''t1'', d_user = JObj [(''role'', JStr ''admin'')]\<rparr>)"
          and w = "\<lparr>storage = \<lparr>ls_token = None, ls_user = None, ls_cart = None\<rparr>, sent = [], alerts = []\<rparr>"
          and a = "\<lparr>token = [], user = JNull\<rparr>"]
  by (auto split: prod.splits)

subsection \<open>Reading back what \<open>JSON.stringify\<close> wrote\<close>

lemma digit_char_is_digit: "d < 10 \<Longrightarrow> is_digit (digit_char d)"
  by (simp add: is_digit_def digit_char_def)


lemma digits_all: "list_all is_digit (digits n)"
proof (induction n rule: digits.induct)
  case (1 n)
  show ?case
  proof (cases "n < 10")
    case True
    then show ?thesis by (subst digits.simps) (simp add: digit_char_is_digit)
  next
    case False
    then show ?thesis using 1 by (subst digits.simps) (simp add: digit_char_is_digit)
  qed
qed

lemma digits_nonempty: "digits n \<noteq> []"
  by (subst digits.simps) simp

















lemma is_digit_not_special:
  assumes "is_digit c"
  shows "c \<noteq> CHR ''n''" "c \<noteq> CHR ''t''" "c \<noteq> CHR ''f''" "c \<noteq> CHR 0x22" "c \<noteq> CHR ''[''"
    "c \<noteq> CHR ''{''" "c \<noteq> CHR ''-''" "c \<noteq> CHR '']''" "c \<noteq> CHR ''}''" "\<not> is_ws c"
  using assms by (auto simp: is_digit_def is_ws_def)

lemma stringify_first:
  "\<exists>c cs. JSON_stringify v = c # cs \<and> \<not> is_ws c \<and> c \<noteq> CHR '']'' \<and> c \<noteq> CHR ''}''"
proof (cases v)
  case (JNum n)
  obtain c cs where d: "digits (nat \<bar>n\<bar>) = c # cs"
    using digits_nonempty [of "nat \<bar>n\<bar>"] by (cases "digits (nat \<bar>n\<bar>)") auto
  have "is_digit c" using digits_all [of "nat \<bar>n\<bar>"] by (simp add: d)
  then show ?thesis using JNum d is_digit_not_special [of c]
    by (cases "n < 0") (auto simp: is_ws_def abs_if)
qed (auto simp: is_ws_def quote_def)

lemma skip_ws_stringify: "skip_ws (JSON_stringify v @ r) = JSON_stringify v @ r"
  using stringify_first [of v] by (auto simp: skip_ws_def)

lemma skip_ws_mark [simp]:
  "skip_ws (CHR '','' # r) = CHR '','' # r"
  "skip_ws (CHR '']'' # r) = CHR '']'' # r"
  "skip_ws (CHR ''}'' # r) = CHR ''}'' # r"
  "skip_ws (CHR '':'' # r) = CHR '':'' # r"
  "skip_ws (CHR 0x22 # r) = CHR 0x22 # r"
  by (simp_all add: skip_ws_def is_ws_def)

lemma follows_mark [simp]:
  "follows (CHR '','' # r)" "follows (CHR '']'' # r)" "follows (CHR ''}'' # r)"
  by (simp_all add: follows_def)












text \<open>
  Claim C8. \<open>logout\<close> issues no request, removes the \<open>token\<close> and \<open>user\<close> keys from
  storage and sets the in-memory token to the empty string and the user to null. The root
  component shows the unauthenticated screen for that state, and so does a fresh start
  that reads the cleared storage.
\<close>

theorem logout_clears:
  "(case logout (w, a) of
      (w', a') \<Rightarrow>
        sent w' = sent w \<and> alerts w' = alerts w \<and>
        ls_token (storage w') = None \<and> ls_user (storage w') = None \<and>
        ls_cart (storage w') = ls_cart (storage w) \<and>
        token a' = [] \<and> user a' = JNull \<and>
        App a' = AuthScreen \<and>
        useAuth (storage w') = Inr a' \<and>
        map_sum id App (useAuth (storage w')) = Inr AuthScreen)"
  by (simp add: logout_def App_def useAuth_def)


end
